theory Spec2Isabelle
  imports Main "HOL-Library.Sublist" "HOL-Library.Multiset"
begin

section \<open>JavaScript strings and arrays\<close>

text \<open>
  A JavaScript string is a sequence of UTF-16 code units. It is modelled by \<open>string\<close>,
  one \<open>char\<close> per code unit, which covers the code units 0 to 255; the built-ins below
  are the restrictions of \<open>String.prototype.trim\<close>, \<open>toLowerCase\<close> and \<open>includes\<close> to
  that range. Every key the selection engines append to a search query is a printable
  ASCII character, so queries always lie in the range.
\<close>

definition isWhiteSpace :: "char \<Rightarrow> bool" where
  \<comment> \<open>WhiteSpace and LineTerminator below U+0100: TAB, LF, VT, FF, CR, SP, NBSP.\<close>
  "isWhiteSpace c =
     (let n = (of_char c :: nat) in (9 \<le> n \<and> n \<le> 13) \<or> n = 32 \<or> n = 160)"

definition trim :: "string \<Rightarrow> string" where
  "trim s = rev (dropWhile isWhiteSpace (rev (dropWhile isWhiteSpace s)))"

definition toLowerCase_char :: "char \<Rightarrow> char" where
  \<comment> \<open>A to Z, and the Latin-1 capitals U+00C0 to U+00DE without the sign U+00D7.\<close>
  "toLowerCase_char c =
     (let n = (of_char c :: nat)
      in if (65 \<le> n \<and> n \<le> 90) \<or> (192 \<le> n \<and> n \<le> 222 \<and> n \<noteq> 215)
         then char_of (n + 32) else c)"

definition toLowerCase :: "string \<Rightarrow> string" where
  "toLowerCase s = map toLowerCase_char s"

text \<open>\<open>includes_str s t\<close> is \<open>s.includes(t)\<close>: \<open>t\<close> occurs in \<open>s\<close> at some position.\<close>

fun includes_str :: "string \<Rightarrow> string \<Rightarrow> bool" where
  "includes_str [] t = (t = [])"
| "includes_str (c # s) t = (prefix t (c # s) \<or> includes_str s t)"

text \<open>
  \<open>xs[i]\<close> for an integer \<open>i\<close>: the element, or \<open>undefined\<close> (here \<open>None\<close>) when \<open>i\<close>
  is negative or not below the length.
\<close>

definition at_index :: "'a list \<Rightarrow> int \<Rightarrow> 'a option" where
  "at_index xs i = (if 0 \<le> i \<and> i < int (length xs) then Some (xs ! nat i) else None)"

text \<open>\<open>xs.indexOf(x)\<close>: the first position of \<open>x\<close>, or \<open>-1\<close>.\<close>

fun indexOf :: "'a list \<Rightarrow> 'a \<Rightarrow> int" where
  "indexOf [] x = - 1"
| "indexOf (y # ys) x =
     (if y = x then 0 else (let r = indexOf ys x in if r < 0 then - 1 else r + 1))"

text \<open>
  \<open>xs.splice(i, 1)\<close>: a negative start counts from the end (not below 0), a start beyond
  the end is the end; one element is removed there when there is one.
\<close>

definition splice1 :: "'a list \<Rightarrow> int \<Rightarrow> 'a list" where
  "splice1 xs i =
     (let n = int (length xs);
          start = (if i < 0 then max (n + i) 0 else min i n)
      in take (nat start) xs @ drop (nat start + 1) xs)"

section \<open>Selectable items and the search filter\<close>

text \<open>
  A choice is an object \<open>{ name, value }\<close>. \<open>choices.indexOf(choice)\<close> compares object
  references, so the model gives every object an identity \<open>oid\<close>: two choices are the
  same object exactly when the records are equal. The field \<open>cvalue\<close> is the source's
  \<open>value\<close>.
\<close>

record choice =
  oid :: nat
  name :: string
  cvalue :: string

text \<open>
  \<open>filterChoices\<close> is the closure of the same name, written identically in
  \<open>customSearchableSelect\<close> and \<open>customMultiSelect\<close>; \<open>choices\<close> is the captured full list.
  The empty string is the only falsy string, so \<open>!query.trim()\<close> is \<open>trim query = []\<close>.
\<close>

definition filterChoices :: "choice list \<Rightarrow> string \<Rightarrow> choice list" where
  "filterChoices choices query =
     (if trim query = [] then choices
      else filter
             (\<lambda>choice. includes_str (toLowerCase (name choice)) (toLowerCase query)
                      \<or> includes_str (toLowerCase (cvalue choice)) (toLowerCase query))
             choices)"

text \<open>
  The specification's predicate: \<open>s\<close> contains \<open>q\<close> as a substring once both are put in
  lower case.
\<close>

definition contains_ci :: "string \<Rightarrow> string \<Rightarrow> bool" where
  "contains_ci s q = sublist (toLowerCase q) (toLowerCase s)"

text \<open>The filter as the specification words it: everything matches exactly for the empty query.\<close>

definition spec_filter :: "choice list \<Rightarrow> string \<Rightarrow> choice list" where
  "spec_filter S Q = filter (\<lambda>i. Q = [] \<or> contains_ci (name i) Q \<or> contains_ci (cvalue i) Q) S"

section \<open>The selection engines\<close>

text \<open>
  The variables captured by the key handler of a session. \<open>customSearchableSelect\<close>
  has \<open>selectedItems\<close>, \<open>currentIndex\<close>, \<open>selectedIndices\<close>, \<open>searchQuery\<close> and
  \<open>filteredChoices\<close>; \<open>customMultiSelect\<close> has the same five (its array is called
  \<open>selectedStacks\<close>) and the flag \<open>isSearching\<close>. \<open>selectedIndices\<close> is a \<open>Set<number>\<close>
  that is only asked \<open>has\<close>, \<open>add\<close> and \<open>delete\<close>. The last two fields are not
  variables of the handler but the state of the process's standard input, which every
  listener on it shares: \<open>rawMode\<close> is what \<open>process.stdin.setRawMode\<close> writes, and
  \<open>stdinPaused\<close> is set by \<open>process.stdin.pause()\<close>. A handler's record holds them while
  the handler runs; the session below hands them from one listener to the next. Screen
  output (\<open>displayChoices\<close>) changes none of these; of it only the checkbox column is
  modelled, below.
\<close>

record select_state =
  selectedItems :: "string list"
  currentIndex :: int
  selectedIndices :: "int set"
  searchQuery :: string
  filteredChoices :: "choice list"
  rawMode :: bool
  stdinPaused :: bool

record multi_state = select_state +
  isSearching :: bool

datatype result = Single string | Multiple "string list"

text \<open>
  What one call of the handler does to the session: it returns and the session waits
  for the next key (\<open>Continue\<close>), it resolves the promise (\<open>Resolve\<close>), it ends the
  process (\<open>Exit\<close>, from \<open>process.exit\<close>), or it throws (\<open>TypeError\<close>, from reading
  \<open>.value\<close> of \<open>undefined\<close>). Nothing catches an exception of the handler: it reaches
  the process's \<open>uncaughtException\<close> hook, which prints and calls \<open>process.exit(1)\<close>
  and does not touch the terminal.
\<close>

datatype outcome = Continue | Resolve result | Exit int | TypeError

definition isUpArrow :: "string \<Rightarrow> bool" where
  "isUpArrow key =
     (key = CHR 0x1B # ''[A'' \<or> key = CHR 0x1B # ''[1;2A''
      \<or> key = CHR 0x1B # ''[1;9A'' \<or> key = CHR 0x1B # ''OA'')"

definition isDownArrow :: "string \<Rightarrow> bool" where
  "isDownArrow key =
     (key = CHR 0x1B # ''[B'' \<or> key = CHR 0x1B # ''[1;2B''
      \<or> key = CHR 0x1B # ''[1;9B'' \<or> key = CHR 0x1B # ''OB'')"

definition isBackspace :: "string \<Rightarrow> bool" where
  "isBackspace key = (key = [CHR 0x7F] \<or> key = [CHR 0x08])"

text \<open>\<open>key.length === 1 && key >= " " && key <= "~"\<close>\<close>

definition isPrintable :: "string \<Rightarrow> bool" where
  "isPrintable key =
     (case key of [c] \<Rightarrow> 32 \<le> (of_char c :: nat) \<and> (of_char c :: nat) \<le> 126 | _ \<Rightarrow> False)"

text \<open>
  The spacebar branch, the same statements in both engines. \<open>actualChoice\<close> is
  \<open>undefined\<close> when the cursor is not a position of the filtered view; \<open>indexOf\<close> then
  answers \<open>-1\<close>, the set is updated with it, and the read of \<open>actualChoice.value\<close>
  that follows throws.
\<close>

definition toggle :: "choice list \<Rightarrow> 'a select_state_scheme \<Rightarrow> outcome \<times> 'a select_state_scheme" where
  "toggle choices s =
     (let actualChoice = at_index (filteredChoices s) (currentIndex s);
          actualIndex = (case actualChoice of None \<Rightarrow> - 1 | Some c \<Rightarrow> indexOf choices c)
      in if actualIndex \<in> selectedIndices s
         then (let s1 = s\<lparr>selectedIndices := selectedIndices s - {actualIndex}\<rparr>
               in case actualChoice of
                    None \<Rightarrow> (TypeError, s1)
                  | Some c \<Rightarrow>
                      (Continue,
                       s1\<lparr>selectedItems :=
                            splice1 (selectedItems s1) (indexOf (selectedItems s1) (cvalue c))\<rparr>))
         else (let s1 = s\<lparr>selectedIndices := insert actualIndex (selectedIndices s)\<rparr>
               in case actualChoice of
                    None \<Rightarrow> (TypeError, s1)
                  | Some c \<Rightarrow> (Continue, s1\<lparr>selectedItems := selectedItems s1 @ [cvalue c]\<rparr>)))"

text \<open>
  The checkbox column that \<open>displayChoices\<close> of \<open>customMultiSelect\<close> draws: for each
  row of the filtered view, \<open>selectedIndices.has(choices.indexOf(choice))\<close>.
\<close>

definition checkboxes :: "choice list \<Rightarrow> 'a select_state_scheme \<Rightarrow> bool list" where
  "checkboxes choices s =
     map (\<lambda>choice. indexOf choices choice \<in> selectedIndices s) (filteredChoices s)"

text \<open>
  The function \<open>handleKey\<close> of \<open>customSearchableSelect(choices, message, multiSelect)\<close>,
  by itself: on Ctrl-C it calls \<open>process.exit(0)\<close> and nothing else. What the other
  listeners on standard input do with the same chunk is part of the session, below. On
  Enter it calls \<open>setRawMode(false)\<close>, \<open>pause()\<close> and \<open>rl.close()\<close> before it resolves.
\<close>

definition handleKey_select ::
  "choice list \<Rightarrow> bool \<Rightarrow> string \<Rightarrow> select_state \<Rightarrow> outcome \<times> select_state" where
  "handleKey_select choices multiSelect key s =
     (if key = [CHR 0x03] then (Exit 0, s)
      else if isUpArrow key then (Continue, s\<lparr>currentIndex := max 0 (currentIndex s - 1)\<rparr>)
      else if isDownArrow key then
        (Continue,
         s\<lparr>currentIndex := min (int (length (filteredChoices s)) - 1) (currentIndex s + 1)\<rparr>)
      else if key = '' '' \<and> multiSelect then toggle choices s
      else if key = [CHR 0x0D] then
        (let s1 = s\<lparr>rawMode := False, stdinPaused := True\<rparr>
         in if multiSelect then (Resolve (Multiple (selectedItems s1)), s1)
            else if length (filteredChoices s1) > 0
                    \<and> currentIndex s1 < int (length (filteredChoices s1))
            then (case at_index (filteredChoices s1) (currentIndex s1) of
                    None \<Rightarrow> (TypeError, s1)
                  | Some c \<Rightarrow> (Resolve (Single (cvalue c)), s1))
            else (Resolve (Single []), s1))
      else if isBackspace key then
        (let q = butlast (searchQuery s); f = filterChoices choices q
         in (Continue,
             s\<lparr>searchQuery := q, filteredChoices := f,
               currentIndex := min (currentIndex s) (max 0 (int (length f) - 1))\<rparr>))
      else if isPrintable key then
        (let q = searchQuery s @ key; f = filterChoices choices q
         in (Continue,
             s\<lparr>searchQuery := q, filteredChoices := f,
               currentIndex := min (currentIndex s) (max 0 (int (length f) - 1))\<rparr>))
      else (Continue, s))"

text \<open>The function \<open>handleKey\<close> of \<open>customMultiSelect(choices, message)\<close>, by itself.\<close>

definition handleKey_multi ::
  "choice list \<Rightarrow> string \<Rightarrow> multi_state \<Rightarrow> outcome \<times> multi_state" where
  "handleKey_multi choices key s =
     (if key = [CHR 0x03] then (Exit 0, s)
      else if key = ''/'' \<and> \<not> isSearching s then
        (Continue, s\<lparr>searchQuery := [], isSearching := True\<rparr>)
      else if isSearching s then
        (if key = [CHR 0x0D] \<or> key = [CHR 0x1B] then
           (let f = filterChoices choices (searchQuery s)
            in (Continue,
                s\<lparr>filteredChoices := f,
                  currentIndex := min (currentIndex s) (int (length f) - 1),
                  isSearching := False\<rparr>))
         else if isBackspace key then
           (let q = butlast (searchQuery s); f = filterChoices choices q
            in (Continue,
                s\<lparr>searchQuery := q, filteredChoices := f,
                  currentIndex := min (currentIndex s) (int (length f) - 1)\<rparr>))
         else if isPrintable key then
           (let q = searchQuery s @ key; f = filterChoices choices q
            in (Continue,
                s\<lparr>searchQuery := q, filteredChoices := f,
                  currentIndex := min (currentIndex s) (int (length f) - 1)\<rparr>))
         else (Continue, s))
      else if isUpArrow key then (Continue, s\<lparr>currentIndex := max 0 (currentIndex s - 1)\<rparr>)
      else if isDownArrow key then
        (Continue,
         s\<lparr>currentIndex := min (int (length (filteredChoices s)) - 1) (currentIndex s + 1)\<rparr>)
      else if key = '' '' then toggle choices s
      else if key = [CHR 0x0D] then
        (Resolve (Multiple (selectedItems s)), s\<lparr>rawMode := False, stdinPaused := True\<rparr>)
      else (Continue, s))"

subsection \<open>Standard input and its listeners\<close>

text \<open>
  A chunk of input is handed to every listener on \<open>process.stdin\<close>, in the order in which
  they were attached; a paused stream hands out nothing. Three kinds of listener matter.

  \<^item> The \<open>readline\<close> interface that each engine creates with \<open>terminal: true\<close> before it
    attaches its handler. The interface is Node's, not this program's. All that reaches
    the session is whether it closes itself on a chunk, which it does without a
    \<open>SIGINT\<close> listener on Ctrl-C, and on Ctrl-D when its line buffer is empty; closing
    switches raw mode off and pauses the stream. It is the parameter \<open>readline\<close>: given
    the chunks the interface has received and the chunk that arrives, whether it closes.
    Its keypress decoder is attached to the stream when the first interface is created,
    ahead of every handler. An interface that has stopped hearing the stream is the
    parameter that never closes.
  \<^item> The handlers of earlier sessions. Neither engine ever removes its handler, so after
    a session has resolved its handler stays attached, with its own variables, and
    goes on reacting to the keys of later sessions; its promise is settled, so its
    \<open>resolve\<close> has no further effect, but its other statements do.
  \<^item> The handler of the session itself, attached last.
\<close>

datatype listener =
    SelectHandler "choice list" bool select_state
  | MultiHandler "choice list" multi_state

definition terminal_of :: "'a select_state_scheme \<Rightarrow> bool \<times> bool" where
  "terminal_of s = (rawMode s, stdinPaused s)"

definition with_terminal :: "bool \<times> bool \<Rightarrow> 'a select_state_scheme \<Rightarrow> 'a select_state_scheme" where
  "with_terminal t s = s\<lparr>rawMode := fst t, stdinPaused := snd t\<rparr>"

fun ends_process :: "outcome \<Rightarrow> bool" where
  "ends_process (Exit n) = True"
| "ends_process TypeError = True"
| "ends_process out = False"

text \<open>
  The handlers left by earlier sessions receive the chunk one after the other. A call
  that exits or throws ends the process there; otherwise the next listener runs with the
  terminal as this one left it.
\<close>

fun staleHandlers ::
  "string \<Rightarrow> listener list \<Rightarrow> bool \<times> bool \<Rightarrow> outcome \<times> listener list \<times> (bool \<times> bool)" where
  "staleHandlers key [] t = (Continue, [], t)"
| "staleHandlers key (SelectHandler choices multiSelect st # rest) t =
     (case handleKey_select choices multiSelect key (with_terminal t st) of
        (out, st') \<Rightarrow>
          if ends_process out
          then (out, SelectHandler choices multiSelect st' # rest, terminal_of st')
          else (case staleHandlers key rest (terminal_of st') of
                  (out', rest', t') \<Rightarrow> (out', SelectHandler choices multiSelect st' # rest', t')))"
| "staleHandlers key (MultiHandler choices st # rest) t =
     (case handleKey_multi choices key (with_terminal t st) of
        (out, st') \<Rightarrow>
          if ends_process out
          then (out, MultiHandler choices st' # rest, terminal_of st')
          else (case staleHandlers key rest (terminal_of st') of
                  (out', rest', t') \<Rightarrow> (out', MultiHandler choices st' # rest', t')))"

text \<open>The interface closing itself: \<open>setRawMode(false)\<close> and \<open>pause()\<close>.\<close>

definition readlineListener ::
  "(string list \<Rightarrow> string \<Rightarrow> bool) \<Rightarrow> string list \<Rightarrow> string
     \<Rightarrow> 'a select_state_scheme \<Rightarrow> 'a select_state_scheme" where
  "readlineListener readline seen key s =
     (if readline seen key then s\<lparr>rawMode := False, stdinPaused := True\<rparr> else s)"

text \<open>
  A session: the variables as the function initialises them, raw mode switched on and the
  stream resumed by the promise's executor, then each chunk that standard input delivers
  handed to the interface, to the handlers of earlier sessions (\<open>stale\<close>) and to the
  session's own handler, until a call ends the process or the own handler resolves the
  promise. \<open>seen\<close> are the chunks delivered so far. With the input read so far used up,
  or the stream paused, the promise is still pending (\<open>Continue\<close>).
\<close>

definition init_select :: "choice list \<Rightarrow> select_state" where
  "init_select choices =
     \<lparr>selectedItems = [], currentIndex = 0, selectedIndices = {}, searchQuery = [],
      filteredChoices = choices, rawMode = True, stdinPaused = False\<rparr>"

definition init_multi :: "choice list \<Rightarrow> multi_state" where
  "init_multi choices =
     \<lparr>selectedItems = [], currentIndex = 0, selectedIndices = {}, searchQuery = [],
      filteredChoices = choices, rawMode = True, stdinPaused = False, isSearching = False\<rparr>"

fun run_select ::
  "(string list \<Rightarrow> string \<Rightarrow> bool) \<Rightarrow> choice list \<Rightarrow> bool \<Rightarrow> string list \<Rightarrow> string list
     \<Rightarrow> listener list \<Rightarrow> select_state \<Rightarrow> outcome \<times> select_state" where
  "run_select readline choices multiSelect seen [] stale s = (Continue, s)"
| "run_select readline choices multiSelect seen (key # keys) stale s =
     (if stdinPaused s then (Continue, s)
      else (let s1 = readlineListener readline seen key s
            in case staleHandlers key stale (terminal_of s1) of
                 (out, stale', t) \<Rightarrow>
                   if ends_process out then (out, with_terminal t s1)
                   else (case handleKey_select choices multiSelect key (with_terminal t s1) of
                           (Continue, s') \<Rightarrow>
                             run_select readline choices multiSelect (seen @ [key]) keys stale' s'
                         | (out', s') \<Rightarrow> (out', s'))))"

fun run_multi ::
  "(string list \<Rightarrow> string \<Rightarrow> bool) \<Rightarrow> choice list \<Rightarrow> string list \<Rightarrow> string list
     \<Rightarrow> listener list \<Rightarrow> multi_state \<Rightarrow> outcome \<times> multi_state" where
  "run_multi readline choices seen [] stale s = (Continue, s)"
| "run_multi readline choices seen (key # keys) stale s =
     (if stdinPaused s then (Continue, s)
      else (let s1 = readlineListener readline seen key s
            in case staleHandlers key stale (terminal_of s1) of
                 (out, stale', t) \<Rightarrow>
                   if ends_process out then (out, with_terminal t s1)
                   else (case handleKey_multi choices key (with_terminal t s1) of
                           (Continue, s') \<Rightarrow>
                             run_multi readline choices (seen @ [key]) keys stale' s'
                         | (out', s') \<Rightarrow> (out', s'))))"

definition customSearchableSelect ::
  "(string list \<Rightarrow> string \<Rightarrow> bool) \<Rightarrow> listener list \<Rightarrow> choice list \<Rightarrow> bool \<Rightarrow> string list
     \<Rightarrow> outcome \<times> select_state" where
  "customSearchableSelect readline stale choices multiSelect keys =
     run_select readline choices multiSelect [] keys stale (init_select choices)"

definition customMultiSelect ::
  "(string list \<Rightarrow> string \<Rightarrow> bool) \<Rightarrow> listener list \<Rightarrow> choice list \<Rightarrow> string list
     \<Rightarrow> outcome \<times> multi_state" where
  "customMultiSelect readline stale choices keys =
     run_multi readline choices [] keys stale (init_multi choices)"

text \<open>
  An interface as Node's behaves in a session whose chunks are single printable
  characters, Backspace, Enter and keys that leave a line buffer alone: it closes on
  Ctrl-C, and on Ctrl-D when the buffer built from the chunks received is empty. Cursor
  movement inside the buffer and the recall of submitted lines by the arrow keys are not
  followed.
\<close>

definition rlLine :: "string list \<Rightarrow> string" where
  "rlLine seen =
     foldl (\<lambda>line key. if isPrintable key then line @ key
                        else if isBackspace key then butlast line
                        else if key = [CHR 0x0D] then []
                        else line)
           [] seen"

definition node_readline :: "string list \<Rightarrow> string \<Rightarrow> bool" where
  "node_readline seen key = (key = [CHR 0x03] \<or> (key = [CHR 0x04] \<and> rlLine seen = []))"

section \<open>The deploy and destroy flows\<close>

text \<open>
  An inventory entry, the interface \<open>CDKStack\<close>. Dates are numbers (milliseconds), the
  tag record is a map.
\<close>

record CDKStack =
  stackName :: string
  stackId :: "string option"
  stackStatus :: string
  creationTime :: nat
  lastUpdatedTime :: "nat option"
  description :: "string option"
  tags :: "(string \<rightharpoonup> string) option"

text \<open>
  \<open>stackFullName.replace(/\s*\([^)]*\)\s*$/, "")\<close>. The pattern is anchored at the end
  of the string, so a match is a suffix: white space, an opening parenthesis, characters
  other than the closing parenthesis, the closing parenthesis, white space. Each starred
  part is followed by a character it cannot match itself, so trying the suffix greedily
  decides the match. \<open>replace\<close> cuts the leftmost match.
\<close>

definition matchesParenSuffix :: "string \<Rightarrow> bool" where
  "matchesParenSuffix s =
     (case dropWhile isWhiteSpace s of
        [] \<Rightarrow> False
      | c # r \<Rightarrow>
          c = CHR ''('' \<and>
          (case dropWhile (\<lambda>d. d \<noteq> CHR '')'') r of
             [] \<Rightarrow> False
           | _ # t \<Rightarrow> list_all isWhiteSpace t))"

fun cleanStackName :: "string \<Rightarrow> string" where
  "cleanStackName [] = []"
| "cleanStackName (c # s) = (if matchesParenSuffix (c # s) then [] else c # cleanStackName s)"

text \<open>
  The calls a flow makes to the executor, \<open>cdkService.deployStack(names)\<close> and
  \<open>cdkService.destroyStack(names)\<close>, in the order it makes them.
\<close>

datatype exec_call = DeployStack "string list" | DestroyStack "string list"

text \<open>
  The choices a flow builds with \<open>stacks.map(...)\<close>: one fresh object per stack, its
  \<open>value\<close> the stack's \<open>stackName\<close>. Its \<open>name\<close> is display text that the flow colours with
  the chalk library from the name and status; that rendering is the parameter \<open>label\<close>.
\<close>

definition stackChoices :: "(CDKStack \<Rightarrow> string) \<Rightarrow> CDKStack list \<Rightarrow> choice list" where
  "stackChoices label stacks =
     map (\<lambda>(i, stack). \<lparr>oid = i, name = label stack, cvalue = stackName stack\<rparr>)
         (enumerate 0 stacks)"

text \<open>
  \<open>showDeployMenu\<close> and \<open>showDestroyMenu\<close>, as the executor calls they make; \<open>stacks\<close> is
  \<open>this.stacks\<close>, \<open>keys\<close> the terminal input of the selection session, \<open>readline\<close> the
  session's interface and \<open>stale\<close> the handlers that earlier sessions have left on
  standard input. When a flow is reached through the main menu, the handler of the main
  menu's \<open>customSearchableSelect\<close> is among them. A flow passes the \<open>await\<close> of the session
  only when its promise resolves. Console output and the closing "go back" prompt are
  left out.
\<close>

definition showDeployMenu ::
  "(string list \<Rightarrow> string \<Rightarrow> bool) \<Rightarrow> listener list \<Rightarrow> (CDKStack \<Rightarrow> string) \<Rightarrow> CDKStack list
     \<Rightarrow> string list \<Rightarrow> exec_call list" where
  "showDeployMenu readline stale label stacks keys =
     (if length stacks = 0 then []
      else case customMultiSelect readline stale (stackChoices label stacks) keys of
             (Resolve (Multiple selectedStacks), s) \<Rightarrow>
               if length selectedStacks = 0 then []
               else [DeployStack (map cleanStackName selectedStacks)]
           | _ \<Rightarrow> [])"

definition showDestroyMenu ::
  "(string list \<Rightarrow> string \<Rightarrow> bool) \<Rightarrow> listener list \<Rightarrow> (CDKStack \<Rightarrow> string) \<Rightarrow> CDKStack list
     \<Rightarrow> string list \<Rightarrow> exec_call list" where
  "showDestroyMenu readline stale label stacks keys =
     (let deployedStacks = filter (\<lambda>stack. stackId stack \<noteq> None) stacks
      in if length deployedStacks = 0 then []
         else case customMultiSelect readline stale (stackChoices label deployedStacks) keys of
                (Resolve (Multiple selectedStacks), s) \<Rightarrow>
                  if length selectedStacks = 0 then []
                  else [DestroyStack (map cleanStackName selectedStacks)]
              | _ \<Rightarrow> [])"

section \<open>Stack inventory reconciliation\<close>

text \<open>
  A declared stack as \<open>cdkExecutor.listStacks()\<close> returns it, and the part of a
  CloudFormation \<open>DescribeStacks\<close> answer that the service reads. \<open>StackStatus\<close> and
  \<open>CreationTime\<close> are read with a non-null assertion and are plain fields here.
\<close>

record stackInfo =
  displayName :: string
  fullName :: string
  cfStackName :: string

record tag =
  Key :: "string option"
  Value :: "string option"

record aws_stack =
  StackId :: "string option"
  StackStatus :: string
  CreationTime :: nat
  LastUpdatedTime :: "nat option"
  Description :: "string option"
  Tags :: "tag list option"

text \<open>
  One \<open>cloudFormationClient.send(new DescribeStacksCommand({StackName}))\<close>: the promise
  is fulfilled with a response whose \<open>Stacks\<close> may be absent, or it is rejected
  (the stack does not exist, access is denied, the network fails, the call is throttled).
\<close>

datatype describe_outcome = Returned "aws_stack list option" | Thrown

text \<open>
  What the service reaches outside the process, over a state \<open>'w\<close> of the outside world:
  the listing of the CDK executor (\<open>None\<close> when it throws), the CloudFormation client,
  and the clock read by \<open>new Date()\<close>.
\<close>

record 'w cloud =
  listStacks :: "'w \<Rightarrow> stackInfo list option \<times> 'w"
  send :: "string \<Rightarrow> 'w \<Rightarrow> describe_outcome \<times> 'w"
  clock :: "'w \<Rightarrow> nat \<times> 'w"

datatype exn = Exn

text \<open>
  The \<open>reduce\<close> over \<open>stack.Tags\<close>: a tag is entered when its key and its value are both
  truthy, that is present and not the empty string. The accumulator is an object
  literal, on which the assignment \<open>acc["__proto__"] = v\<close> of a string creates no entry.
\<close>

definition reduceTags :: "tag list \<Rightarrow> (string \<rightharpoonup> string)" where
  "reduceTags ts =
     fold (\<lambda>t acc. case (Key t, Value t) of
                     (Some k, Some v) \<Rightarrow>
                       if k \<noteq> [] \<and> v \<noteq> [] \<and> k \<noteq> ''__proto__'' then acc(k \<mapsto> v) else acc
                   | _ \<Rightarrow> acc)
          ts Map.empty"

text \<open>
  \<open>getStackDetails(stackName, cfStackName)\<close>: \<open>Inr (Some d)\<close> for a returned record,
  \<open>Inr None\<close> for \<open>null\<close>, \<open>Inl\<close> for an exception leaving the function. The inner
  \<open>catch\<close> around \<open>send\<close> swallows a rejection and falls through to \<open>return null\<close>.
  Verbose logging is left out.
\<close>

definition getStackDetails ::
  "'w cloud \<Rightarrow> string \<Rightarrow> string \<Rightarrow> 'w \<Rightarrow> (exn + CDKStack option) \<times> 'w" where
  "getStackDetails env stackName' cfStackName' w =
     (case send env cfStackName' w of
        (Returned (Some (stack # rest)), w') \<Rightarrow>
          (Inr (Some \<lparr>stackName = stackName', stackId = StackId stack,
                      stackStatus = StackStatus stack, creationTime = CreationTime stack,
                      lastUpdatedTime = LastUpdatedTime stack,
                      description = Description stack,
                      tags = map_option reduceTags (Tags stack)\<rparr>), w')
      | (Returned _, w') \<Rightarrow> (Inr None, w')
      | (Thrown, w') \<Rightarrow> (Inr None, w'))"

text \<open>
  The loop of \<open>listCDKStacks\<close> over the declared stacks, \<open>detailedStacks\<close> being the array
  it pushes to, and \<open>listCDKStacks\<close> itself, which answers the empty list when the
  listing throws.
\<close>

fun detailLoop :: "'w cloud \<Rightarrow> stackInfo list \<Rightarrow> CDKStack list \<Rightarrow> 'w \<Rightarrow> CDKStack list \<times> 'w" where
  "detailLoop env [] detailedStacks w = (detailedStacks, w)"
| "detailLoop env (stack # rest) detailedStacks w =
     (case getStackDetails env (fullName stack) (cfStackName stack) w of
        (Inr (Some stackDetails), w1) \<Rightarrow>
          detailLoop env rest (detailedStacks @ [stackDetails]) w1
      | (Inr None, w1) \<Rightarrow>
          (case clock env w1 of (t1, w2) \<Rightarrow>
           case clock env w2 of (t2, w3) \<Rightarrow>
             detailLoop env rest
               (detailedStacks @
                  [\<lparr>stackName = fullName stack, stackId = None,
                    stackStatus = ''NOT_DEPLOYED'', creationTime = t1,
                    lastUpdatedTime = Some t2,
                    description = Some ''CDK Stack (not deployed)'',
                    tags = Some Map.empty\<rparr>]) w3)
      | (Inl e, w1) \<Rightarrow>
          (case clock env w1 of (t1, w2) \<Rightarrow>
           case clock env w2 of (t2, w3) \<Rightarrow>
             detailLoop env rest
               (detailedStacks @
                  [\<lparr>stackName = fullName stack, stackId = None,
                    stackStatus = ''UNKNOWN'', creationTime = t1,
                    lastUpdatedTime = Some t2,
                    description = Some ''CDK Stack (details unavailable)'',
                    tags = Some Map.empty\<rparr>]) w3))"

definition listCDKStacks :: "'w cloud \<Rightarrow> 'w \<Rightarrow> CDKStack list \<times> 'w" where
  "listCDKStacks env w =
     (case listStacks env w of
        (None, w') \<Rightarrow> ([], w')
      | (Some stackInfo, w') \<Rightarrow>
          if length stackInfo = 0 then ([], w') else detailLoop env stackInfo [] w')"

section \<open>Specification-side notions and sample inputs\<close>




definition arrow_down :: string where "arrow_down = CHR 0x1B # ''[B''"
definition key_enter :: string where "key_enter = [CHR 0x0D]"
definition key_backspace :: string where "key_backspace = [CHR 0x7F]"
definition key_ctrl_c :: string where "key_ctrl_c = [CHR 0x03]"
definition key_ctrl_d :: string where "key_ctrl_d = [CHR 0x04]"
definition key_escape :: string where "key_escape = [CHR 0x1B]"

text \<open>Three items, as in the scenarios of the specification.\<close>

definition scenario_choices :: "choice list" where
  "scenario_choices =
     [\<lparr>oid = 0, name = ''Alpha'', cvalue = ''App/Alpha''\<rparr>,
      \<lparr>oid = 1, name = ''Child'', cvalue = ''App/Child''\<rparr>,
      \<lparr>oid = 2, name = ''Other'', cvalue = ''App/Other''\<rparr>]"


text \<open>
  The choices of the main menu (each label without its leading emoji, which lies outside
  the code units modelled), and the handler that the main menu's session leaves on
  standard input once Enter has confirmed its first entry.
\<close>

definition menuChoices :: "choice list" where
  "menuChoices =
     [\<lparr>oid = 0, name = ''Deploy stacks'', cvalue = ''deploy''\<rparr>,
      \<lparr>oid = 1, name = ''Destroy stacks'', cvalue = ''destroy''\<rparr>,
      \<lparr>oid = 2, name = ''Refresh stacks'', cvalue = ''refresh''\<rparr>,
      \<lparr>oid = 3, name = ''Exit'', cvalue = ''exit''\<rparr>]"

definition mainMenuHandler :: listener where
  "mainMenuHandler =
     SelectHandler menuChoices False
       (snd (customSearchableSelect node_readline [] menuChoices False [key_enter]))"

text \<open>
  Three declared stacks and an outside world in which the first is deployed, the lookup
  of the second is rejected, and the third is answered with no stack. The clock ticks
  once per reading.
\<close>

definition scenario_declared :: "stackInfo list" where
  "scenario_declared =
     [\<lparr>displayName = ''A'', fullName = ''A (cf-A)'', cfStackName = ''cf-A''\<rparr>,
      \<lparr>displayName = ''Child'', fullName = ''B/Child (cf-B)'', cfStackName = ''cf-B''\<rparr>,
      \<lparr>displayName = ''C'', fullName = ''C (cf-C)'', cfStackName = ''cf-C''\<rparr>]"

definition scenario_cloud :: "nat cloud" where
  "scenario_cloud =
     \<lparr>listStacks = (\<lambda>w. (Some scenario_declared, w)),
      send = (\<lambda>n w.
        (if n = ''cf-A''
         then Returned (Some [\<lparr>StackId = Some ''arn:cf-A'', StackStatus = ''CREATE_COMPLETE'',
                                CreationTime = 5, LastUpdatedTime = None,
                                Description = None, Tags = None\<rparr>])
         else if n = ''cf-B'' then Thrown
         else Returned (Some []), w)),
      clock = (\<lambda>w. (w, Suc w))\<rparr>"

definition scenario_stacks :: "CDKStack list" where
  "scenario_stacks =
     [\<lparr>stackName = ''A (cf-A)'', stackId = Some ''arn:cf-A'', stackStatus = ''CREATE_COMPLETE'',
       creationTime = 5, lastUpdatedTime = None, description = None, tags = None\<rparr>]"

section \<open>The search filter\<close>

lemma includes_str_sublist: "includes_str s t = sublist t s"
  by (induction s) (simp_all add: sublist_Cons_right)


text \<open>
  Claim C8, as amended. For every query \<open>Q\<close> and choice list \<open>S\<close>, the filter keeps, in
  the order of \<open>S\<close>, exactly the items for which \<open>Q\<close> is blank (empty once white space is
  trimmed from both ends) or the label or the value contains \<open>Q\<close>, untrimmed, as a
  case-insensitive substring. Everything matches exactly when \<open>Q\<close> is blank or every item
  contains it, not only when \<open>Q\<close> is the empty string.
\<close>

theorem filterChoices_characterisation:
  "filterChoices S Q =
     filter (\<lambda>i. trim Q = [] \<or> contains_ci (name i) Q \<or> contains_ci (cvalue i) Q) S"
  by (simp add: filterChoices_def contains_ci_def includes_str_sublist)

text \<open>
  The claim as stated fails for the query of one space: the code returns the whole list,
  while the label and the value of the item contain no space, so the stated set is empty.
\<close>

theorem filterChoices_blank_query_counterexample:
  "set (filterChoices [\<lparr>oid = 0, name = ''Alpha'', cvalue = ''alpha''\<rparr>] '' '')
     \<noteq> set (spec_filter [\<lparr>oid = 0, name = ''Alpha'', cvalue = ''alpha''\<rparr>] '' '')"
  by code_simp

section \<open>Key classes\<close>

lemma key_classes:
  "isPrintable key \<Longrightarrow> key \<noteq> [CHR 0x03]"
  "isPrintable key \<Longrightarrow> key \<noteq> [CHR 0x0D]"
  "isPrintable key \<Longrightarrow> key \<noteq> [CHR 0x1B]"
  "isPrintable key \<Longrightarrow> \<not> isUpArrow key"
  "isPrintable key \<Longrightarrow> \<not> isDownArrow key"
  "isPrintable key \<Longrightarrow> \<not> isBackspace key"
  "isBackspace key \<Longrightarrow> key \<noteq> [CHR 0x03]"
  "isBackspace key \<Longrightarrow> key \<noteq> [CHR 0x0D]"
  "isBackspace key \<Longrightarrow> key \<noteq> [CHR 0x1B]"
  "isBackspace key \<Longrightarrow> key \<noteq> ''/''"
  "isBackspace key \<Longrightarrow> key \<noteq> '' ''"
  "isBackspace key \<Longrightarrow> \<not> isUpArrow key"
  "isBackspace key \<Longrightarrow> \<not> isDownArrow key"
  by (auto simp: isPrintable_def isBackspace_def isUpArrow_def isDownArrow_def
           split: list.splits)

lemma toggle_frame:
  "searchQuery (snd (toggle choices s)) = searchQuery s"
  "filteredChoices (snd (toggle choices s)) = filteredChoices s"
  "currentIndex (snd (toggle choices s)) = currentIndex s"
  "rawMode (snd (toggle choices s)) = rawMode s"
  "stdinPaused (snd (toggle choices s)) = stdinPaused s"
  by (simp_all add: toggle_def Let_def split: option.splits)


section \<open>Typing into the search\<close>

text \<open>
  Claim C4, as amended. A printable-character key grows the search query by that
  character and refilters the visible list from the full choice list in the single-select
  engine in every state (the space bar excepted when the engine runs with \<open>multiSelect\<close>,
  where it toggles), and in the multi-select engine in every state that is in search
  mode. Outside search mode the multi-select engine does not take the key as a search
  character: the query does not grow by it.
\<close>

theorem printable_key_grows_query:
  assumes "isPrintable key"
  shows "(\<not> (key = '' '' \<and> multiSelect) \<longrightarrow>
            handleKey_select choices multiSelect key s =
              (Continue,
               s\<lparr>searchQuery := searchQuery s @ key,
                 filteredChoices := filterChoices choices (searchQuery s @ key),
                 currentIndex := min (currentIndex s)
                   (max 0 (int (length (filterChoices choices (searchQuery s @ key))) - 1))\<rparr>))
       \<and> (isSearching m \<longrightarrow>
            handleKey_multi choices key m =
              (Continue,
               m\<lparr>searchQuery := searchQuery m @ key,
                 filteredChoices := filterChoices choices (searchQuery m @ key),
                 currentIndex := min (currentIndex m)
                   (int (length (filterChoices choices (searchQuery m @ key))) - 1)\<rparr>))
       \<and> (\<not> isSearching m \<longrightarrow>
            searchQuery (snd (handleKey_multi choices key m)) \<noteq> searchQuery m @ key)"
proof -
  have ne: "key \<noteq> []" using assms by (auto simp: isPrintable_def)
  have "\<not> isSearching m \<Longrightarrow>
          searchQuery (snd (handleKey_multi choices key m)) \<noteq> searchQuery m @ key"
    using ne by (auto simp: handleKey_multi_def toggle_frame)
  then show ?thesis
    using assms key_classes[of key]
    by (simp add: handleKey_select_def handleKey_multi_def Let_def)
qed

theorem printable_key_grows_query_witness:
  "isPrintable ''c''
   \<and> searchQuery (snd (handleKey_select scenario_choices False ''c''
                          (init_select scenario_choices))) = ''c''
   \<and> map name (filteredChoices (snd (handleKey_select scenario_choices False ''c''
                          (init_select scenario_choices)))) = [''Child'']
   \<and> isSearching (init_multi scenario_choices\<lparr>isSearching := True\<rparr>)
   \<and> searchQuery (snd (handleKey_multi scenario_choices ''c''
                          (init_multi scenario_choices\<lparr>isSearching := True\<rparr>))) = ''c''
   \<and> map name (filteredChoices (snd (handleKey_multi scenario_choices ''c''
                          (init_multi scenario_choices\<lparr>isSearching := True\<rparr>)))) = [''Child'']
   \<and> \<not> isSearching (init_multi scenario_choices)
   \<and> searchQuery (snd (handleKey_multi scenario_choices ''c'' (init_multi scenario_choices)))
       \<noteq> searchQuery (init_multi scenario_choices) @ ''c''"
proof -
  have p: "isPrintable ''c''" by (simp add: isPrintable_def)
  have f: "map name (filterChoices scenario_choices ''c'') = [''Child'']" by code_simp
  have q: "searchQuery (init_select scenario_choices) = []"
          "searchQuery (init_multi scenario_choices) = []"
    by (simp_all add: init_select_def init_multi_def)
  have n: "\<not> isSearching (init_multi scenario_choices)" by (simp add: init_multi_def)
  from printable_key_grows_query[OF p, of False scenario_choices
         "init_select scenario_choices" "init_multi scenario_choices"] n
  have g: "searchQuery (snd (handleKey_multi scenario_choices ''c'' (init_multi scenario_choices)))
             \<noteq> searchQuery (init_multi scenario_choices) @ ''c''"
    by blast
  from printable_key_grows_query[OF p, of False scenario_choices "init_select scenario_choices"
         "init_multi scenario_choices\<lparr>isSearching := True\<rparr>"] p f q
  have "searchQuery (snd (handleKey_select scenario_choices False ''c''
                          (init_select scenario_choices))) = ''c''
   \<and> map name (filteredChoices (snd (handleKey_select scenario_choices False ''c''
                          (init_select scenario_choices)))) = [''Child'']
   \<and> isSearching (init_multi scenario_choices\<lparr>isSearching := True\<rparr>)
   \<and> searchQuery (snd (handleKey_multi scenario_choices ''c''
                          (init_multi scenario_choices\<lparr>isSearching := True\<rparr>))) = ''c''
   \<and> map name (filteredChoices (snd (handleKey_multi scenario_choices ''c''
                          (init_multi scenario_choices\<lparr>isSearching := True\<rparr>)))) = [''Child'']"
    by simp
  with p n g show ?thesis by blast
qed

text \<open>
  The claim as stated fails in the initial state of the multi-select engine, which is
  not in search mode: the printable key \<open>c\<close> leaves the query empty.
\<close>

theorem printable_key_outside_search_counterexample:
  "isPrintable ''c''
   \<and> searchQuery (snd (handleKey_multi scenario_choices ''c'' (init_multi scenario_choices)))
       \<noteq> searchQuery (init_multi scenario_choices) @ ''c''"
  by code_simp

section \<open>Filtering and the selection set\<close>

text \<open>
  Claim C9. In the multi-select engine every key handled as Backspace or as a printable
  search character (the space bar outside search mode is the toggle key, not a search
  character) leaves \<open>selectedIndices\<close> and the result array as they were; more generally
  every key that changes the query or the filtered view leaves them as they were. Items
  hidden by a search therefore stay selected.
\<close>

theorem filtering_keeps_selection:
  "((isBackspace key \<or> isPrintable key) \<and> (isSearching s \<or> key \<noteq> '' '') \<longrightarrow>
       selectedIndices (snd (handleKey_multi choices key s)) = selectedIndices s
     \<and> selectedItems (snd (handleKey_multi choices key s)) = selectedItems s)
   \<and> (searchQuery (snd (handleKey_multi choices key s)) \<noteq> searchQuery s
        \<or> filteredChoices (snd (handleKey_multi choices key s)) \<noteq> filteredChoices s \<longrightarrow>
       selectedIndices (snd (handleKey_multi choices key s)) = selectedIndices s
     \<and> selectedItems (snd (handleKey_multi choices key s)) = selectedItems s)"
  using key_classes[of key]
  by (auto simp: handleKey_multi_def Let_def toggle_frame)

text \<open>
  The scenario of the specification: original indices 0 and 2 are selected, the search
  \<open>l\<close> hides the item at index 2, and Backspace clears the search; index 2 is still in
  the set, the full list is shown again, and its rows 0 and 2 are drawn checked.
\<close>

theorem filtering_keeps_selection_witness:
  "(isBackspace ''l'' \<or> isPrintable ''l'')
   \<and> isSearching (snd (customMultiSelect node_readline [] scenario_choices
                          ['' '', arrow_down, arrow_down, '' '', ''/'']))
   \<and> selectedIndices (snd (customMultiSelect node_readline [] scenario_choices
                          ['' '', arrow_down, arrow_down, '' '', ''/''])) = {0, 2}
   \<and> selectedIndices (snd (handleKey_multi scenario_choices ''l''
         (snd (customMultiSelect node_readline [] scenario_choices
                 ['' '', arrow_down, arrow_down, '' '', ''/''])))) = {0, 2}
   \<and> map name (filteredChoices (snd (customMultiSelect node_readline [] scenario_choices
         ['' '', arrow_down, arrow_down, '' '', ''/'', ''l'']))) = [''Alpha'', ''Child'']
   \<and> selectedIndices (snd (customMultiSelect node_readline [] scenario_choices
         ['' '', arrow_down, arrow_down, '' '', ''/'', ''l'', key_backspace])) = {0, 2}
   \<and> filteredChoices (snd (customMultiSelect node_readline [] scenario_choices
         ['' '', arrow_down, arrow_down, '' '', ''/'', ''l'', key_backspace])) = scenario_choices
   \<and> checkboxes scenario_choices (snd (customMultiSelect node_readline [] scenario_choices
         ['' '', arrow_down, arrow_down, '' '', ''/'', ''l'', key_backspace])) = [True, False, True]"
proof -
  let ?s = "snd (customMultiSelect node_readline [] scenario_choices ['' '', arrow_down, arrow_down, '' '', ''/''])"
  have p: "isPrintable ''l''" by (simp add: isPrintable_def)
  have a: "isSearching ?s" by code_simp
  have b: "selectedIndices ?s = {0, 2}" by code_simp
  have c: "map name (filteredChoices (snd (customMultiSelect node_readline [] scenario_choices
         ['' '', arrow_down, arrow_down, '' '', ''/'', ''l'']))) = [''Alpha'', ''Child'']"
    by code_simp
  have d: "selectedIndices (snd (customMultiSelect node_readline [] scenario_choices
         ['' '', arrow_down, arrow_down, '' '', ''/'', ''l'', key_backspace])) = {0, 2}"
    by code_simp
  have e: "filteredChoices (snd (customMultiSelect node_readline [] scenario_choices
         ['' '', arrow_down, arrow_down, '' '', ''/'', ''l'', key_backspace])) = scenario_choices"
    by code_simp
  have f: "checkboxes scenario_choices (snd (customMultiSelect node_readline [] scenario_choices
         ['' '', arrow_down, arrow_down, '' '', ''/'', ''l'', key_backspace])) = [True, False, True]"
    by code_simp
  from filtering_keeps_selection[of "''l''" ?s scenario_choices] p a b
  have "selectedIndices (snd (handleKey_multi scenario_choices ''l'' ?s)) = {0, 2}" by simp
  with p a b c d e f show ?thesis by simp
qed

section \<open>The cursor after a filter change\<close>

text \<open>
  Claim C7 does not hold of the code. In the multi-select engine the filter branches
  clamp the cursor to \<open>filtered.length - 1\<close>, with no lower bound: when the search \<open>z\<close>
  empties the view the cursor becomes \<open>-1\<close> and not \<open>max(0, -1)\<close>, and after Backspace
  the view has its three items again while the cursor is still \<open>-1\<close>. In the single-select
  engine, which does clamp with \<open>Math.max(0, \<dots>)\<close>, the Down arrow on an empty view puts
  the cursor at \<open>-1\<close> and the next filter change keeps it there.
\<close>

theorem cursor_negative_after_filter_change:
  "filteredChoices (snd (customMultiSelect node_readline [] scenario_choices [''/'', ''z''])) = []
   \<and> currentIndex (snd (customMultiSelect node_readline [] scenario_choices [''/'', ''z''])) = - 1
   \<and> fst (customMultiSelect node_readline [] scenario_choices [''/'', ''z'', key_backspace])
       = Continue
   \<and> filteredChoices
         (snd (customMultiSelect node_readline [] scenario_choices [''/'', ''z'', key_backspace]))
       = scenario_choices
   \<and> currentIndex
         (snd (customMultiSelect node_readline [] scenario_choices [''/'', ''z'', key_backspace]))
       = - 1
   \<and> fst (customSearchableSelect node_readline [] scenario_choices False
              [''z'', arrow_down, key_backspace])
       = Continue
   \<and> filteredChoices
         (snd (customSearchableSelect node_readline [] scenario_choices False
                 [''z'', arrow_down, key_backspace]))
       = scenario_choices
   \<and> currentIndex
         (snd (customSearchableSelect node_readline [] scenario_choices False
                 [''z'', arrow_down, key_backspace]))
       = - 1"
  by code_simp

section \<open>The range of the selected indices\<close>

text \<open>
  Claim C3 does not hold of the code. With the filtered view empty, the space bar reads
  \<open>undefined\<close> under the cursor, \<open>indexOf\<close> answers \<open>-1\<close>, and the handler adds \<open>-1\<close> to
  \<open>selectedIndices\<close> before it throws on \<open>actualChoice.value\<close>: in the multi-select engine
  after a search without results has been left with Enter or with Escape (also with the
  main menu's handler still attached), in \<open>customSearchableSelect\<close> run with \<open>multiSelect\<close>
  directly after the search.
\<close>

theorem toggle_on_empty_view_selects_minus_one:
  "fst (customMultiSelect node_readline [] scenario_choices [''/'', ''z'', key_enter]) = Continue
   \<and> filteredChoices
         (snd (customMultiSelect node_readline [] scenario_choices [''/'', ''z'', key_enter])) = []
   \<and> fst (customMultiSelect node_readline [] scenario_choices [''/'', ''z'', key_enter, '' ''])
       = TypeError
   \<and> selectedIndices
         (snd (customMultiSelect node_readline [] scenario_choices [''/'', ''z'', key_enter, '' '']))
       = {- 1}
   \<and> fst (customSearchableSelect node_readline [] scenario_choices True [''z'', '' ''])
       = TypeError
   \<and> selectedIndices
         (snd (customSearchableSelect node_readline [] scenario_choices True [''z'', '' '']))
       = {- 1}
   \<and> (- 1 :: int) \<notin> {0..<int (length scenario_choices)}
   \<and> fst (customMultiSelect node_readline [mainMenuHandler] scenario_choices
              [''/'', ''z'', key_escape, '' ''])
       = TypeError
   \<and> selectedIndices
         (snd (customMultiSelect node_readline [mainMenuHandler] scenario_choices
                 [''/'', ''z'', key_escape, '' '']))
       = {- 1}"
  by code_simp

section \<open>Raw terminal mode\<close>

lemma confirm_releases_raw_mode:
  "\<not> isSearching s \<Longrightarrow>
     handleKey_multi choices [CHR 0x0D] s
       = (Resolve (Multiple (selectedItems s)), s\<lparr>rawMode := False, stdinPaused := True\<rparr>)"
  by (simp add: handleKey_multi_def isUpArrow_def isDownArrow_def)

text \<open>
  On Ctrl-C the handlers themselves only call \<open>process.exit(0)\<close>. In a session without
  handlers of earlier sessions, raw mode is off at that exit exactly when the session's
  readline interface has closed on the chunk.
\<close>

lemma interrupt_release_by_interface:
  "customMultiSelect readline [] choices [key_ctrl_c]
     = (Exit 0, readlineListener readline [] key_ctrl_c (init_multi choices))"
  "customSearchableSelect readline [] choices multiSelect [key_ctrl_c]
     = (Exit 0, readlineListener readline [] key_ctrl_c (init_select choices))"
  "rawMode (readlineListener readline [] key_ctrl_c (init_multi choices))
     = (\<not> readline [] key_ctrl_c)"
  "rawMode (readlineListener readline [] key_ctrl_c (init_select choices))
     = (\<not> readline [] key_ctrl_c)"
  by (simp_all add: customMultiSelect_def customSearchableSelect_def handleKey_multi_def
        handleKey_select_def key_ctrl_c_def init_multi_def init_select_def
        readlineListener_def terminal_of_def with_terminal_def)

lemma interrupt_node_readline:
  "customMultiSelect node_readline [] choices [key_ctrl_c]
     = (Exit 0, init_multi choices\<lparr>rawMode := False, stdinPaused := True\<rparr>)"
  by (simp add: customMultiSelect_def handleKey_multi_def key_ctrl_c_def init_multi_def
        readlineListener_def terminal_of_def with_terminal_def node_readline_def)

text \<open>
  Claim C6 does not hold of the code. Raw mode is released when a session is confirmed
  and, by the readline interface, when it is interrupted; it is not released on the exit
  by an uncaught error. The \<open>TypeError\<close> that the space bar throws on an empty view goes to
  the \<open>uncaughtException\<close> hook, which exits the process, and the terminal is still in raw
  mode: in the multi-select engine after a search without results has been left with
  Escape or Enter, with or without the main menu's handler attached, and in
  \<open>customSearchableSelect\<close> run with \<open>multiSelect\<close>.
\<close>

theorem uncaught_error_exits_in_raw_mode:
  "fst (customMultiSelect node_readline [] scenario_choices [''/'', ''z'', key_escape, '' ''])
     = TypeError
   \<and> rawMode (snd (customMultiSelect node_readline [] scenario_choices
                      [''/'', ''z'', key_escape, '' '']))
   \<and> fst (customMultiSelect node_readline [] scenario_choices [''/'', ''z'', key_enter, '' ''])
     = TypeError
   \<and> rawMode (snd (customMultiSelect node_readline [] scenario_choices
                      [''/'', ''z'', key_enter, '' '']))
   \<and> fst (customMultiSelect node_readline [mainMenuHandler] scenario_choices
              [''/'', ''z'', key_escape, '' ''])
     = TypeError
   \<and> rawMode (snd (customMultiSelect node_readline [mainMenuHandler] scenario_choices
                      [''/'', ''z'', key_escape, '' '']))
   \<and> fst (customSearchableSelect node_readline [] scenario_choices True [''z'', '' ''])
     = TypeError
   \<and> rawMode (snd (customSearchableSelect node_readline [] scenario_choices True [''z'', '' '']))"
  by code_simp

section \<open>Array look-ups\<close>





section \<open>The result of a multi-select session\<close>

















section \<open>Reconciliation\<close>

lemma getStackDetails_name:
  "getStackDetails env n c w = (Inr (Some d), w') \<Longrightarrow> stackName d = n"
  by (auto simp: getStackDetails_def
           split: prod.splits describe_outcome.splits option.splits list.splits)

lemma getStackDetails_never_throws: "fst (getStackDetails env n c w) \<noteq> Inl e"
  by (auto simp: getStackDetails_def
           split: prod.splits describe_outcome.splits option.splits list.splits)

lemma getStackDetails_rejected:
  "send env c w = (Thrown, w') \<Longrightarrow> getStackDetails env n c w = (Inr None, w')"
  by (simp add: getStackDetails_def)

lemma detailLoop_names:
  "map stackName (fst (detailLoop env declared acc w)) = map stackName acc @ map fullName declared"
proof (induction declared arbitrary: acc w)
  case Nil
  show ?case by simp
next
  case (Cons stack rest)
  obtain r w1 where g: "getStackDetails env (fullName stack) (cfStackName stack) w = (r, w1)"
    by (cases "getStackDetails env (fullName stack) (cfStackName stack) w")
  show ?case
  proof (cases r)
    case (Inl e)
    with g Cons.IH show ?thesis by (simp split: prod.splits)
  next
    case (Inr found)
    show ?thesis
    proof (cases found)
      case None
      with g Inr Cons.IH show ?thesis by (simp split: prod.splits)
    next
      case (Some d)
      with g Inr have "stackName d = fullName stack" by (simp add: getStackDetails_name)
      with g Inr Some Cons.IH show ?thesis by simp
    qed
  qed
qed

text \<open>
  Claim C2. When the listing succeeds with the declared stacks, reconciliation returns
  one entry per declared stack in the declared order: the list of \<open>stackName\<close>s of the
  result is the list of \<open>fullName\<close>s of the declared stacks, so the lengths agree and the
  \<open>i\<close>-th entry carries the \<open>i\<close>-th declared name; nothing is reordered, dropped or added.
\<close>

theorem reconciliation_preserves_declared_order:
  assumes "listStacks env w = (Some declared, w')"
  shows "map stackName (fst (listCDKStacks env w)) = map fullName declared
       \<and> length (fst (listCDKStacks env w)) = length declared
       \<and> (\<forall>i < length declared.
             stackName (fst (listCDKStacks env w) ! i) = fullName (declared ! i))"
proof -
  have m: "map stackName (fst (listCDKStacks env w)) = map fullName declared"
    using assms by (simp add: listCDKStacks_def detailLoop_names)
  then have l: "length (fst (listCDKStacks env w)) = length declared"
    by (metis length_map)
  have "\<forall>i < length declared.
          stackName (fst (listCDKStacks env w) ! i) = fullName (declared ! i)"
  proof (intro allI impI)
    fix i assume "i < length declared"
    then show "stackName (fst (listCDKStacks env w) ! i) = fullName (declared ! i)"
      using m l by (metis nth_map)
  qed
  with m l show ?thesis by blast
qed

theorem reconciliation_preserves_declared_order_witness:
  "listStacks scenario_cloud 100 = (Some scenario_declared, 100)
   \<and> map stackName (fst (listCDKStacks scenario_cloud 100))
       = [''A (cf-A)'', ''B/Child (cf-B)'', ''C (cf-C)'']
   \<and> (1::nat) < length scenario_declared
   \<and> stackName (fst (listCDKStacks scenario_cloud 100) ! 1) = ''B/Child (cf-B)''"
proof -
  have h: "listStacks scenario_cloud 100 = (Some scenario_declared, 100)"
    by (simp add: scenario_cloud_def)
  have i: "(1::nat) < length scenario_declared" by (simp add: scenario_declared_def)
  from reconciliation_preserves_declared_order[OF h] i
  have "stackName (fst (listCDKStacks scenario_cloud 100) ! 1) = fullName (scenario_declared ! 1)"
    by blast
  with reconciliation_preserves_declared_order[OF h] h i show ?thesis
    by (simp add: scenario_declared_def)
qed

text \<open>
  Claim C1 does not hold of the code. \<open>getStackDetails\<close> catches the rejection of the
  lookup and returns \<open>null\<close>, so a lookup that threw is reported as \<open>NOT_DEPLOYED\<close>, like a
  lookup that found nothing; the \<open>UNKNOWN\<close> branch of \<open>listCDKStacks\<close> is never taken. The
  reconciliation does go on to the stacks after the rejected lookup.
\<close>

theorem rejected_lookup_reported_not_deployed:
  "fst (send scenario_cloud ''cf-B'' 100) = Thrown
   \<and> fst (send scenario_cloud ''cf-C'' 100) = Returned (Some [])
   \<and> map stackName (fst (listCDKStacks scenario_cloud 100))
       = [''A (cf-A)'', ''B/Child (cf-B)'', ''C (cf-C)'']
   \<and> map stackStatus (fst (listCDKStacks scenario_cloud 100))
       = [''CREATE_COMPLETE'', ''NOT_DEPLOYED'', ''NOT_DEPLOYED'']"
  by (simp add: listCDKStacks_def scenario_cloud_def scenario_declared_def getStackDetails_def)

section \<open>Dispatch of a confirmed selection\<close>

text \<open>
  Claim C10. When the multi-select session of the deploy flow, or of the destroy flow,
  is confirmed with the empty list, the flow makes no call to the executor; and every
  call either flow makes carries a non-empty list of stack names. This holds whatever
  the readline interface does and whatever handlers earlier sessions have left attached.
\<close>

theorem empty_selection_never_dispatched:
  "(fst (customMultiSelect readline stale (stackChoices label stacks) keys) = Resolve (Multiple [])
      \<longrightarrow> showDeployMenu readline stale label stacks keys = [])
   \<and> (fst (customMultiSelect readline stale
             (stackChoices label (filter (\<lambda>stack. stackId stack \<noteq> None) stacks)) keys)
         = Resolve (Multiple [])
      \<longrightarrow> showDestroyMenu readline stale label stacks keys = [])
   \<and> (\<forall>call \<in> set (showDeployMenu readline stale label stacks keys)
                \<union> set (showDestroyMenu readline stale label stacks keys).
         \<exists>names. names \<noteq> [] \<and> (call = DeployStack names \<or> call = DestroyStack names))"
  by (auto simp: showDeployMenu_def showDestroyMenu_def Let_def
           split: prod.splits outcome.splits result.splits if_splits)

theorem empty_selection_never_dispatched_witness:
  "fst (customMultiSelect node_readline [] (stackChoices stackName scenario_stacks) [key_enter])
     = Resolve (Multiple [])
   \<and> showDeployMenu node_readline [] stackName scenario_stacks [key_enter] = []
   \<and> fst (customMultiSelect node_readline []
           (stackChoices stackName (filter (\<lambda>stack. stackId stack \<noteq> None) scenario_stacks))
           [key_enter])
     = Resolve (Multiple [])
   \<and> showDestroyMenu node_readline [] stackName scenario_stacks [key_enter] = []
   \<and> DeployStack [''A'']
       \<in> set (showDeployMenu node_readline [] stackName scenario_stacks ['' '', key_enter])
         \<union> set (showDestroyMenu node_readline [] stackName scenario_stacks [key_enter])
   \<and> DestroyStack [''A'']
       \<in> set (showDeployMenu node_readline [] stackName scenario_stacks [key_enter])
         \<union> set (showDestroyMenu node_readline [] stackName scenario_stacks ['' '', key_enter])
   \<and> (\<exists>names. names \<noteq> [] \<and> (DeployStack [''A''] = DeployStack names
                                \<or> DeployStack [''A''] = DestroyStack names))
   \<and> (\<exists>names. names \<noteq> [] \<and> (DestroyStack [''A''] = DeployStack names
                                \<or> DestroyStack [''A''] = DestroyStack names))"
proof -
  have a: "fst (customMultiSelect node_readline [] (stackChoices stackName scenario_stacks)
                  [key_enter]) = Resolve (Multiple [])"
    by code_simp
  have b: "fst (customMultiSelect node_readline []
           (stackChoices stackName (filter (\<lambda>stack. stackId stack \<noteq> None) scenario_stacks))
           [key_enter]) = Resolve (Multiple [])"
    by code_simp
  from empty_selection_never_dispatched
         [of node_readline "[]" stackName scenario_stacks "[key_enter]"] a b
  have e: "showDeployMenu node_readline [] stackName scenario_stacks [key_enter] = []"
          "showDestroyMenu node_readline [] stackName scenario_stacks [key_enter] = []"
    by blast+
  have c: "showDeployMenu node_readline [] stackName scenario_stacks ['' '', key_enter]
             = [DeployStack [''A'']]"
    by code_simp
  have c': "showDestroyMenu node_readline [] stackName scenario_stacks ['' '', key_enter]
             = [DestroyStack [''A'']]"
    by code_simp
  from c c' e have d:
    "DeployStack [''A'']
       \<in> set (showDeployMenu node_readline [] stackName scenario_stacks ['' '', key_enter])
         \<union> set (showDestroyMenu node_readline [] stackName scenario_stacks ['' '', key_enter])"
    "DestroyStack [''A'']
       \<in> set (showDeployMenu node_readline [] stackName scenario_stacks ['' '', key_enter])
         \<union> set (showDestroyMenu node_readline [] stackName scenario_stacks ['' '', key_enter])"
    by simp_all
  from empty_selection_never_dispatched
         [of node_readline "[]" stackName scenario_stacks "['' '', key_enter]"] d
  have f: "\<exists>names. names \<noteq> [] \<and> (DeployStack [''A''] = DeployStack names
                                \<or> DeployStack [''A''] = DestroyStack names)"
          "\<exists>names. names \<noteq> [] \<and> (DestroyStack [''A''] = DeployStack names
                                \<or> DestroyStack [''A''] = DestroyStack names)"
    by blast+
  from c c' e have d2:
    "DeployStack [''A'']
       \<in> set (showDeployMenu node_readline [] stackName scenario_stacks ['' '', key_enter])
         \<union> set (showDestroyMenu node_readline [] stackName scenario_stacks [key_enter])"
    "DestroyStack [''A'']
       \<in> set (showDeployMenu node_readline [] stackName scenario_stacks [key_enter])
         \<union> set (showDestroyMenu node_readline [] stackName scenario_stacks ['' '', key_enter])"
    by simp_all
  from a b e d2 f show ?thesis by blast
qed

text \<open>
  On the way through the main menu its handler is still attached. It pauses standard
  input at the first Enter, also at an Enter that only leaves the search of the stack
  selection; the selection then receives no further key and the flow dispatches nothing,
  where the same keys without that handler end in a dispatch.
\<close>

lemma main_menu_handler_stalls_selection:
  "showDeployMenu node_readline [mainMenuHandler] stackName scenario_stacks
     [''/'', ''a'', key_enter, '' '', key_enter] = []"
  "showDeployMenu node_readline [] stackName scenario_stacks
     [''/'', ''a'', key_enter, '' '', key_enter] = [DeployStack [''A'']]"
  "showDeployMenu node_readline [mainMenuHandler] stackName scenario_stacks
     ['' '', key_enter] = [DeployStack [''A'']]"
  by code_simp+

end
